theory Spec2Isabelle
  imports Main "HOL-Library.AList"
begin

section \<open>Data model\<close>

text \<open>
  The room coordination engine is the Socket.io module of the backend
  (\<^verbatim>\<open>initializeSocket\<close>, \<^verbatim>\<open>handleTimerAction\<close>, \<^verbatim>\<open>handleLeaveRoom\<close>).
  Socket ids, room ids and user ids are JavaScript strings. Socket.io addresses a
  socket through a room named after its id, so socket ids and room ids share one
  name space.
\<close>

type_synonym socketId = string
type_synonym roomId = string
type_synonym userId = string
type_synonym payload = string

text \<open>
  The content of a chat message is a JavaScript string: a sequence of UTF-16 code
  units, each a number below 65536. The other strings are only compared and passed on.
\<close>

type_synonym jsstring = "nat list"

text \<open>\<^verbatim>\<open>interface TimerState\<close>; \<^verbatim>\<open>startedAt\<close> is a clock reading or null.\<close>

record TimerState =
  isRunning :: bool
  timeRemaining :: int
  isBreak :: bool
  startedAt :: "nat option"
  workDuration :: int
  breakDuration :: int

text \<open>The payload \<^verbatim>\<open>data\<close> of a \<^verbatim>\<open>timer-tick\<close> event.\<close>

record TickData =
  dataTimeRemaining :: int
  dataIsRunning :: bool
  dataIsBreak :: bool

text \<open>\<^verbatim>\<open>interface RoomUser {id, username, socketId}\<close>.\<close>

record RoomUser =
  ru_id :: userId
  ru_username :: string
  ru_socketId :: socketId

text \<open>
  \<^verbatim>\<open>interface Message {id, userId, username, content, timestamp}\<close>. The timestamp
  is kept as the clock reading itself; its ISO rendering is not modelled.
\<close>

record Message =
  msg_id :: string
  msg_userId :: userId
  msg_username :: string
  msg_content :: jsstring
  msg_timestamp :: nat

text \<open>The fields of a document of the \<^verbatim>\<open>Room\<close> collection that the engine reads or writes.\<close>

record RoomDoc =
  host :: userId
  timerState :: TimerState

text \<open>
  A connected socket: the identity attached by the authentication middleware,
  \<^verbatim>\<open>socket.currentRoom\<close>, and the Socket.io rooms the socket is a member of
  (\<^verbatim>\<open>socket.rooms\<close>, which holds the socket's own id from the start).
\<close>

record Socket =
  userId :: userId
  username :: string
  currentRoom :: "roomId option"
  rooms :: "string list"

text \<open>
  The server: the \<^verbatim>\<open>Room\<close> collection, whether the database answers
  (a query on a database that does not answer throws), the two module-level maps
  \<^verbatim>\<open>roomMessages\<close> and \<^verbatim>\<open>roomUsers\<close>, and the connected sockets. JavaScript
  maps keep insertion order, and \<^verbatim>\<open>Map.set\<close> on a present key keeps its place:
  association lists with \<^const>\<open>AList.update\<close> and \<^const>\<open>AList.delete\<close>.
\<close>

record Server =
  db :: "(roomId \<times> RoomDoc) list"
  dbUp :: bool
  roomMessages :: "(roomId \<times> Message list) list"
  roomUsers :: "(roomId \<times> (socketId \<times> RoomUser) list) list"
  sockets :: "(socketId \<times> Socket) list"

text \<open>Inbound events of one socket, and the transport-level \<^verbatim>\<open>disconnect\<close>.\<close>

datatype Event =
    JoinRoom roomId
  | LeaveRoom
  | SendMessage jsstring
  | TimerStart
  | TimerPause
  | TimerReset
  | TimerSwitchMode
  | TimerTick TickData
  | VideoReady
  | VideoOffer socketId payload
  | VideoAnswer socketId payload
  | VideoIceCandidate socketId payload
  | VideoLeave
  | Disconnect

text \<open>
  The payload of an outbound \<^verbatim>\<open>timer-sync\<close>: \<^verbatim>\<open>handleTimerAction\<close> sends the whole
  new state, the tick handler sends the tick's payload as received.
\<close>

datatype TimerPayload = Full TimerState | Tick TickData

datatype OutEvent =
    Error string
  | RoomState TimerState "Message list" "RoomUser list" userId
  | UserJoined RoomUser
  | UsersUpdate "RoomUser list"
  | UserLeft RoomUser
  | ReceiveMessage Message
  | TimerSync TimerPayload
  | VideoUserReady socketId string
  | VideoOfferOut socketId string payload
  | VideoAnswerOut socketId payload
  | VideoIceCandidateOut socketId payload
  | VideoUserLeft socketId

text \<open>One delivery: the receiving socket and the event it receives.\<close>

type_synonym Emission = "socketId \<times> OutEvent"

datatype Action = Start | Pause | Reset | Switch

section \<open>Socket.io primitives\<close>

text \<open>\<^verbatim>\<open>io.to(name)\<close>: the connected sockets that are members of the room \<^verbatim>\<open>name\<close>.\<close>

definition io_to :: "Server \<Rightarrow> string \<Rightarrow> socketId list" where
  "io_to s name = map fst (filter (\<lambda>(sid, sk). name \<in> set (rooms sk)) (sockets s))"

text \<open>\<^verbatim>\<open>socket.to(name)\<close>: the same, without the sending socket.\<close>

definition socket_to :: "Server \<Rightarrow> socketId \<Rightarrow> string \<Rightarrow> socketId list" where
  "socket_to s sid name = filter (\<lambda>x. x \<noteq> sid) (io_to s name)"

definition emit :: "socketId list \<Rightarrow> OutEvent \<Rightarrow> Emission list" where
  "emit recipients ev = map (\<lambda>r. (r, ev)) recipients"

text \<open>\<^verbatim>\<open>socket.join(name)\<close> and \<^verbatim>\<open>socket.leave(name)\<close> on the set \<^verbatim>\<open>socket.rooms\<close>.\<close>

definition socket_join :: "Socket \<Rightarrow> string \<Rightarrow> Socket" where
  "socket_join sk name =
     sk\<lparr>rooms := (if name \<in> set (rooms sk) then rooms sk else rooms sk @ [name])\<rparr>"

definition socket_leave :: "Socket \<Rightarrow> string \<Rightarrow> Socket" where
  "socket_leave sk name = sk\<lparr>rooms := removeAll name (rooms sk)\<rparr>"

definition set_socket :: "Server \<Rightarrow> socketId \<Rightarrow> Socket \<Rightarrow> Server" where
  "set_socket s sid sk = s\<lparr>sockets := AList.update sid sk (sockets s)\<rparr>"

section \<open>Strings and the database\<close>

text \<open>
  \<^verbatim>\<open>String.prototype.trim\<close> removes white space and line terminators at both ends:
  tab, line feed, vertical tab, form feed, carriage return, space, no-break space,
  U+1680, U+2000 to U+200A, U+2028, U+2029, U+202F, U+205F, U+3000 and U+FEFF. Each
  is one code unit.
\<close>

definition is_space :: "nat \<Rightarrow> bool" where
  "is_space c =
     (c \<in> set [0x09, 0x0A, 0x0B, 0x0C, 0x0D, 0x20, 0xA0, 0x1680, 0x2028, 0x2029, 0x202F,
                0x205F, 0x3000, 0xFEFF]
      \<or> (0x2000 \<le> c \<and> c \<le> 0x200A))"

definition trim :: "jsstring \<Rightarrow> jsstring" where
  "trim str = rev (dropWhile is_space (rev (dropWhile is_space str)))"

text \<open>\<^verbatim>\<open>Date.now().toString()\<close>: the decimal digits of the clock reading.\<close>

definition digit :: "nat \<Rightarrow> char" where
  "digit n = ''0123456789'' ! n"

function toString :: "nat \<Rightarrow> string" where
  "toString n = (if n < 10 then [digit n] else toString (n div 10) @ [digit (n mod 10)])"
  by pat_completeness auto
termination
  by (relation "measure (\<lambda>n. n)") auto

declare toString.simps [simp del]

text \<open>
  \<^verbatim>\<open>Room.findOneAndUpdate({roomId}, update)\<close>, where the update sets fields under
  \<^verbatim>\<open>timerState\<close>: the first matching document is changed, and nothing is created
  when none matches.
\<close>

definition findOneAndUpdate ::
  "(roomId \<times> RoomDoc) list \<Rightarrow> roomId \<Rightarrow> (TimerState \<Rightarrow> TimerState) \<Rightarrow> (roomId \<times> RoomDoc) list" where
  "findOneAndUpdate d r upd =
     (case map_of d r of
        None \<Rightarrow> d
      | Some room \<Rightarrow> AList.update r (room\<lparr>timerState := upd (timerState room)\<rparr>) d)"

section \<open>Event handlers\<close>

text \<open>
  Each handler runs from start to end without another event in between. The handler
  of \<^verbatim>\<open>join-room\<close>: the \<^verbatim>\<open>catch\<close> branch is taken when the query throws.
\<close>

definition room_user :: "socketId \<Rightarrow> Socket \<Rightarrow> RoomUser" where
  "room_user sid sk = \<lparr>ru_id = userId sk, ru_username = username sk, ru_socketId = sid\<rparr>"

definition users_of :: "Server \<Rightarrow> roomId \<Rightarrow> (socketId \<times> RoomUser) list" where
  "users_of s r = (case map_of (roomUsers s) r of None \<Rightarrow> [] | Some us \<Rightarrow> us)"

definition messages_of :: "Server \<Rightarrow> roomId \<Rightarrow> Message list" where
  "messages_of s r = (case map_of (roomMessages s) r of None \<Rightarrow> [] | Some ms \<Rightarrow> ms)"

definition join_room :: "Server \<Rightarrow> socketId \<Rightarrow> Socket \<Rightarrow> roomId \<Rightarrow> Server \<times> Emission list" where
  "join_room s sid sk r =
     (if \<not> dbUp s then (s, [(sid, Error ''Failed to join room'')])
      else case map_of (db s) r of
        None \<Rightarrow> (s, [(sid, Error ''Room not found'')])
      | Some room \<Rightarrow>
          let s1 = set_socket s sid ((socket_join sk r)\<lparr>currentRoom := Some r\<rparr>);
              s2 = (if map_of (roomUsers s1) r = None
                    then s1\<lparr>roomUsers := AList.update r [] (roomUsers s1)\<rparr> else s1);
              s3 = s2\<lparr>roomUsers :=
                     AList.update r (AList.update sid (room_user sid sk) (users_of s2 r)) (roomUsers s2)\<rparr>;
              s4 = (if map_of (roomMessages s3) r = None
                    then s3\<lparr>roomMessages := AList.update r [] (roomMessages s3)\<rparr> else s3);
              users = map snd (users_of s4 r)
          in (s4,
              [(sid, RoomState (timerState room) (messages_of s4 r) users (host room))]
              @ emit (socket_to s4 sid r) (UserJoined (room_user sid sk))
              @ emit (io_to s4 r) (UsersUpdate users)))"

text \<open>\<^verbatim>\<open>handleLeaveRoom(socket, io)\<close>.\<close>

definition handleLeaveRoom :: "Server \<Rightarrow> socketId \<Rightarrow> Socket \<Rightarrow> Server \<times> Emission list" where
  "handleLeaveRoom s sid sk =
     (case currentRoom sk of
        None \<Rightarrow> (s, [])
      | Some r \<Rightarrow>
          let (s1, out) =
                (case map_of (roomUsers s) r of
                   None \<Rightarrow> (s, [])
                 | Some us \<Rightarrow>
                     let us' = AList.delete sid us in
                     if length us' = 0
                     then (s\<lparr>roomUsers := AList.delete r (roomUsers s),
                             roomMessages := AList.delete r (roomMessages s)\<rparr>, [])
                     else (s\<lparr>roomUsers := AList.update r us' (roomUsers s)\<rparr>,
                           emit (io_to s r) (UserLeft (room_user sid sk))
                           @ emit (io_to s r) (UsersUpdate (map snd us'))
                           @ emit (io_to s r) (VideoUserLeft sid)))
          in (set_socket s1 sid ((socket_leave sk r)\<lparr>currentRoom := None\<rparr>), out))"

text \<open>
  The handler of \<^verbatim>\<open>send-message\<close>; \<^verbatim>\<open>now\<close> is what \<^verbatim>\<open>Date.now()\<close> returns. The content
  is a string, so \<^verbatim>\<open>!content\<close> holds exactly for the empty one.
\<close>

definition new_message :: "nat \<Rightarrow> Socket \<Rightarrow> jsstring \<Rightarrow> Message" where
  "new_message now sk content =
     \<lparr>msg_id = toString now, msg_userId = userId sk, msg_username = username sk,
      msg_content = trim content, msg_timestamp = now\<rparr>"

definition send_message ::
  "Server \<Rightarrow> nat \<Rightarrow> socketId \<Rightarrow> Socket \<Rightarrow> jsstring \<Rightarrow> Server \<times> Emission list" where
  "send_message s now sid sk content =
     (case currentRoom sk of
        None \<Rightarrow> (s, [])
      | Some r \<Rightarrow>
          if content = [] then (s, [])
          else
            let message = new_message now sk content;
                s1 = (case map_of (roomMessages s) r of
                        None \<Rightarrow> s
                      | Some messages \<Rightarrow>
                          let pushed = messages @ [message];
                              kept = (if length pushed > 100 then tl pushed else pushed)
                          in s\<lparr>roomMessages := AList.update r kept (roomMessages s)\<rparr>)
            in (s1, emit (io_to s1 r) (ReceiveMessage message)))"

text \<open>
  \<^verbatim>\<open>handleTimerAction(socket, io, action)\<close>. The fields set in the database and the
  fields set in the broadcast copy are the same in each case of the source, so one
  function gives both; the two \<^verbatim>\<open>new Date()\<close> of \<^verbatim>\<open>start\<close> read the same clock value.
\<close>

definition timer_update :: "Action \<Rightarrow> nat \<Rightarrow> TimerState \<Rightarrow> TimerState" where
  "timer_update action now t =
     (case action of
        Start \<Rightarrow> t\<lparr>isRunning := True, startedAt := Some now\<rparr>
      | Pause \<Rightarrow> t\<lparr>isRunning := False\<rparr>
      | Reset \<Rightarrow>
          let duration = (if isBreak t then breakDuration t else workDuration t)
          in t\<lparr>isRunning := False, timeRemaining := duration, startedAt := None\<rparr>
      | Switch \<Rightarrow>
          let isNowBreak = (\<not> isBreak t);
              newDuration = (if isNowBreak then breakDuration t else workDuration t)
          in t\<lparr>isBreak := isNowBreak, isRunning := False, timeRemaining := newDuration,
               startedAt := None\<rparr>)"

definition handleTimerAction ::
  "Server \<Rightarrow> nat \<Rightarrow> socketId \<Rightarrow> Socket \<Rightarrow> Action \<Rightarrow> Server \<times> Emission list" where
  "handleTimerAction s now sid sk action =
     (case currentRoom sk of
        None \<Rightarrow> (s, [])
      | Some r \<Rightarrow>
          if \<not> dbUp s then (s, [(sid, Error ''Failed to update timer'')])
          else
            (case map_of (db s) r of
               None \<Rightarrow> (s, [])
             | Some room \<Rightarrow>
                 if host room \<noteq> userId sk
                 then (s, [(sid, Error ''Only the host can control the timer'')])
                 else
                   let newState = timer_update action now (timerState room)
                   in (s\<lparr>db := findOneAndUpdate (db s) r (timer_update action now)\<rparr>,
                       emit (io_to s r) (TimerSync (Full newState)))))"

text \<open>
  The handler of \<^verbatim>\<open>timer-tick\<close>. It has no \<^verbatim>\<open>try\<close>: when the update throws, the
  handler ends there and nothing is broadcast.
\<close>

definition timer_tick :: "Server \<Rightarrow> socketId \<Rightarrow> Socket \<Rightarrow> TickData \<Rightarrow> Server \<times> Emission list" where
  "timer_tick s sid sk data =
     (case currentRoom sk of
        None \<Rightarrow> (s, [])
      | Some r \<Rightarrow>
          if \<not> dbUp s then (s, [])
          else (s\<lparr>db := findOneAndUpdate (db s) r
                     (\<lambda>t. t\<lparr>timeRemaining := dataTimeRemaining data,
                            isRunning := dataIsRunning data\<rparr>)\<rparr>,
                emit (socket_to s sid r) (TimerSync (Tick data))))"

text \<open>The signalling handlers.\<close>

definition video_ready :: "Server \<Rightarrow> socketId \<Rightarrow> Socket \<Rightarrow> Server \<times> Emission list" where
  "video_ready s sid sk =
     (case currentRoom sk of
        None \<Rightarrow> (s, [])
      | Some r \<Rightarrow> (s, emit (socket_to s sid r) (VideoUserReady sid (username sk))))"

definition video_leave :: "Server \<Rightarrow> socketId \<Rightarrow> Socket \<Rightarrow> Server \<times> Emission list" where
  "video_leave s sid sk =
     (case currentRoom sk of
        None \<Rightarrow> (s, [])
      | Some r \<Rightarrow> (s, emit (socket_to s sid r) (VideoUserLeft sid)))"

text \<open>
  Socket.io takes a closing socket out of all its rooms and out of the server before
  the \<^verbatim>\<open>disconnect\<close> handler runs; the handler still reads the socket's own fields.
\<close>

definition disconnect :: "Server \<Rightarrow> socketId \<Rightarrow> Socket \<Rightarrow> Server \<times> Emission list" where
  "disconnect s sid sk =
     (let sk0 = sk\<lparr>rooms := []\<rparr>;
          (s1, out) = handleLeaveRoom (set_socket s sid sk0) sid sk0
      in (s1\<lparr>sockets := AList.delete sid (sockets s1)\<rparr>, out))"

fun on_event :: "Server \<Rightarrow> nat \<Rightarrow> socketId \<Rightarrow> Socket \<Rightarrow> Event \<Rightarrow> Server \<times> Emission list" where
  "on_event s now sid sk (JoinRoom r) = join_room s sid sk r"
| "on_event s now sid sk LeaveRoom = handleLeaveRoom s sid sk"
| "on_event s now sid sk (SendMessage content) = send_message s now sid sk content"
| "on_event s now sid sk TimerStart = handleTimerAction s now sid sk Start"
| "on_event s now sid sk TimerPause = handleTimerAction s now sid sk Pause"
| "on_event s now sid sk TimerReset = handleTimerAction s now sid sk Reset"
| "on_event s now sid sk TimerSwitchMode = handleTimerAction s now sid sk Switch"
| "on_event s now sid sk (TimerTick data) = timer_tick s sid sk data"
| "on_event s now sid sk VideoReady = video_ready s sid sk"
| "on_event s now sid sk (VideoOffer target offer) =
     (s, emit (io_to s target) (VideoOfferOut sid (username sk) offer))"
| "on_event s now sid sk (VideoAnswer target answer) =
     (s, emit (io_to s target) (VideoAnswerOut sid answer))"
| "on_event s now sid sk (VideoIceCandidate target candidate) =
     (s, emit (io_to s target) (VideoIceCandidateOut sid candidate))"
| "on_event s now sid sk VideoLeave = video_leave s sid sk"
| "on_event s now sid sk Disconnect = disconnect s sid sk"

text \<open>An event of socket \<open>sid\<close> at clock reading \<open>now\<close>; only a connected socket has events.\<close>

definition handle :: "Server \<Rightarrow> nat \<Rightarrow> socketId \<Rightarrow> Event \<Rightarrow> Server \<times> Emission list" where
  "handle s now sid e =
     (case map_of (sockets s) sid of
        None \<Rightarrow> (s, [])
      | Some sk \<Rightarrow> on_event s now sid sk e)"

section \<open>Runs of the server\<close>

text \<open>
  What happens to the server: a socket passes the authentication middleware and
  connects (with the identity decoded from its token), a connected socket sends an
  event, or the database goes down or comes back.
\<close>

datatype Env =
    Connection socketId userId string
  | Inbound nat socketId Event
  | DbAvailability bool

definition connection :: "Server \<Rightarrow> socketId \<Rightarrow> userId \<Rightarrow> string \<Rightarrow> Server" where
  "connection s sid uid uname =
     (if map_of (sockets s) sid \<noteq> None then s
      else set_socket s sid
             \<lparr>userId = uid, username = uname, currentRoom = None, rooms = [sid]\<rparr>)"

fun env_step :: "Server \<Rightarrow> Env \<Rightarrow> Server \<times> Emission list" where
  "env_step s (Connection sid uid uname) = (connection s sid uid uname, [])"
| "env_step s (Inbound now sid e) = handle s now sid e"
| "env_step s (DbAvailability b) = (s\<lparr>dbUp := b\<rparr>, [])"

fun exec :: "Server \<Rightarrow> Env list \<Rightarrow> Server" where
  "exec s [] = s"
| "exec s (x # xs) = exec (fst (env_step s x)) xs"

text \<open>The server at start: the given collection, no socket, both maps empty.\<close>

definition initial :: "(roomId \<times> RoomDoc) list \<Rightarrow> Server" where
  "initial d = \<lparr>db = d, dbUp = True, roomMessages = [], roomUsers = [], sockets = []\<rparr>"

section \<open>The host's client\<close>

text \<open>
  \<^verbatim>\<open>tick\<close> of the timer component: the events it emits, in order, and the new local
  state.
\<close>

definition tick :: "bool \<Rightarrow> TimerState \<Rightarrow> Event list \<times> TimerState" where
  "tick isHost prev =
     (if \<not> isRunning prev \<or> timeRemaining prev \<le> 0 then ([], prev)
      else
        let newTime = timeRemaining prev - 1;
            sent = (if isHost
                    then [TimerTick \<lparr>dataTimeRemaining = newTime, dataIsRunning = True,
                                     dataIsBreak = isBreak prev\<rparr>]
                    else [])
        in if newTime \<le> 0
           then (sent @ (if isHost then [TimerSwitchMode] else []),
                 prev\<lparr>timeRemaining := 0, isRunning := False\<rparr>)
           else (sent, prev\<lparr>timeRemaining := newTime\<rparr>))"

section \<open>Classes of events\<close>

text \<open>
  The events whose handler starts by reading \<^verbatim>\<open>socket.currentRoom\<close> and returns when
  it is unset; \<^verbatim>\<open>join-room\<close>, the three forwarding handlers and \<^verbatim>\<open>disconnect\<close> are
  the others.
\<close>

fun reads_current_room :: "Event \<Rightarrow> bool" where
  "reads_current_room (JoinRoom r) = False"
| "reads_current_room (VideoOffer target offer) = False"
| "reads_current_room (VideoAnswer target answer) = False"
| "reads_current_room (VideoIceCandidate target candidate) = False"
| "reads_current_room Disconnect = False"
| "reads_current_room e = True"

section \<open>An example server\<close>

text \<open>
  Two rooms in the database, with the defaults of the schema but one second left on
  a running timer. Ann (the host of \<^verbatim>\<open>R1\<close>) and Bob have joined \<^verbatim>\<open>R1\<close>; Eve is connected
  and has joined nothing.
\<close>

definition timer0 :: TimerState where
  "timer0 = \<lparr>isRunning = True, timeRemaining = 1, isBreak = False, startedAt = Some 0,
             workDuration = 1500, breakDuration = 300\<rparr>"

definition rooms0 :: "(roomId \<times> RoomDoc) list" where
  "rooms0 = [(''R1'', \<lparr>host = ''u1'', timerState = timer0\<rparr>),
             (''R2'', \<lparr>host = ''u2'', timerState = timer0\<rparr>)]"

definition ann :: Socket where
  "ann = \<lparr>userId = ''u1'', username = ''ann'', currentRoom = Some ''R1'',
          rooms = [''c1'', ''R1'']\<rparr>"

definition bob :: Socket where
  "bob = \<lparr>userId = ''u2'', username = ''bob'', currentRoom = Some ''R1'',
          rooms = [''c2'', ''R1'']\<rparr>"

definition eve :: Socket where
  "eve = \<lparr>userId = ''u3'', username = ''eve'', currentRoom = None, rooms = [''c3'']\<rparr>"

definition demo :: Server where
  "demo = \<lparr>db = rooms0, dbUp = True, roomMessages = [(''R1'', [])],
            roomUsers = [(''R1'', [(''c1'', room_user ''c1'' ann), (''c2'', room_user ''c2'' bob)])],
            sockets = [(''c1'', ann), (''c2'', bob), (''c3'', eve)]\<rparr>"

text \<open>The code units of a literal; its characters are taken as code points.\<close>

definition utf16 :: "string \<Rightarrow> jsstring" where
  "utf16 str = map of_char str"

text \<open>
  The run that leads to the example server, and the events of one socket that sends
  messages, each given by the clock reading at which it is handled and its content.
\<close>

definition joins :: "Env list" where
  "joins = [Connection ''c1'' ''u1'' ''ann'', Connection ''c2'' ''u2'' ''bob'',
            Connection ''c3'' ''u3'' ''eve'',
            Inbound 1 ''c1'' (JoinRoom ''R1''), Inbound 2 ''c2'' (JoinRoom ''R1'')]"

definition sends :: "socketId \<Rightarrow> (nat \<times> jsstring) list \<Rightarrow> Env list" where
  "sends sid xs = map (\<lambda>(now, content). Inbound now sid (SendMessage content)) xs"

text \<open>The server after Bob has then sent a hundred messages, at the clock readings 3 to 102.\<close>

definition hundred :: Server where
  "hundred = exec (initial rooms0) (joins @ sends ''c2'' (map (\<lambda>n. (n, utf16 ''old'')) [3..<103]))"

section \<open>Basic facts\<close>

lemma map_of_update_same: "map_of (AList.update k v al) k = Some v"
  by (simp add: update_conv')

lemma map_of_update_other: "k' \<noteq> k \<Longrightarrow> map_of (AList.update k v al) k' = map_of al k'"
  by (simp add: update_conv')

lemma trim_no_space:
  assumes "str \<noteq> []" and "\<not> is_space (hd str)" and "\<not> is_space (last str)"
  shows "trim str = str"
proof -
  have front: "dropWhile is_space str = str"
    using assms(1,2) by (cases str) simp_all
  have "rev str \<noteq> []" and "\<not> is_space (hd (rev str))"
    using assms(1,3) by (simp_all add: hd_rev)
  then have "dropWhile is_space (rev str) = rev str"
    by (cases "rev str") simp_all
  with front show ?thesis by (simp add: trim_def)
qed

text \<open>White space beyond ASCII is trimmed as well.\<close>

lemma trim_beyond_ascii: "trim [0xA0] = [] \<and> trim [0xFEFF, 0x68, 0x2003] = [0x68]"
  by (simp add: trim_def is_space_def)

lemma exec_append: "exec s (xs @ ys) = exec (exec s xs) ys"
  by (induction xs arbitrary: s) simp_all

text \<open>The example server is the server after three connections and two joins.\<close>

lemma demo_reachable: "exec (initial rooms0) joins = demo"
  unfolding joins_def by code_simp

section \<open>The tick that reaches zero (C1)\<close>

text \<open>
  C1, as stated, fails: the host's tick with \<^verbatim>\<open>timeRemaining\<close> 0 is written to the
  database as it was sent. The stored timer still runs, its phase is still the work
  phase, and the time remaining is 0, not the 300 seconds of the break.
\<close>

theorem tick_to_zero_is_stored_as_sent:
  "handle demo 5 ''c1'' (TimerTick \<lparr>dataTimeRemaining = 0, dataIsRunning = True, dataIsBreak = False\<rparr>)
     = (demo\<lparr>db := [(''R1'', \<lparr>host = ''u1'', timerState =
                         \<lparr>isRunning = True, timeRemaining = 0, isBreak = False, startedAt = Some 0,
                          workDuration = 1500, breakDuration = 300\<rparr>\<rparr>),
                      (''R2'', \<lparr>host = ''u2'', timerState = timer0\<rparr>)]\<rparr>,
        [(''c2'', TimerSync (Tick \<lparr>dataTimeRemaining = 0, dataIsRunning = True, dataIsBreak = False\<rparr>))])"
  by (simp add: handle_def timer_tick_def findOneAndUpdate_def demo_def rooms0_def bob_def ann_def
      eve_def socket_to_def io_to_def emit_def timer0_def)

text \<open>
  C1, amended: when the host's local timer is running with one second left, its client
  emits a tick with \<^verbatim>\<open>timeRemaining\<close> 0 and \<^verbatim>\<open>isRunning\<close> true, and then
  \<^verbatim>\<open>timer-switch-mode\<close>. The server stores the tick as sent (time remaining 0, running,
  phase unchanged); once it has handled the switch as well, the stored timer is not
  running, its phase is flipped, its time remaining is the duration of the new phase,
  and \<^verbatim>\<open>startedAt\<close> is null.
\<close>

theorem tick_to_zero_then_switch_mode:
  assumes "map_of (sockets s) sid = Some sk"
    and "currentRoom sk = Some r"
    and "map_of (db s) r = Some room"
    and "host room = userId sk"
    and "dbUp s"
    and "isRunning prev"
    and "timeRemaining prev = 1"
  shows "let d = \<lparr>dataTimeRemaining = 0, dataIsRunning = True, dataIsBreak = isBreak prev\<rparr>;
             s1 = fst (handle s now sid (TimerTick d));
             s2 = fst (handle s1 later sid TimerSwitchMode);
             t = timerState room
         in fst (tick True prev) = [TimerTick d, TimerSwitchMode]
          \<and> map_of (db s1) r = Some (room\<lparr>timerState := t\<lparr>timeRemaining := 0, isRunning := True\<rparr>\<rparr>)
          \<and> map_of (db s2) r =
              Some (room\<lparr>timerState :=
                     t\<lparr>isBreak := \<not> isBreak t, isRunning := False,
                       timeRemaining := (if isBreak t then workDuration t else breakDuration t),
                       startedAt := None\<rparr>\<rparr>)"
proof -
  define d where "d = \<lparr>dataTimeRemaining = 0, dataIsRunning = True, dataIsBreak = isBreak prev\<rparr>"
  define t where "t = timerState room"
  define room1 where "room1 = room\<lparr>timerState := t\<lparr>timeRemaining := 0, isRunning := True\<rparr>\<rparr>"
  define s1 where "s1 = s\<lparr>db := AList.update r room1 (db s)\<rparr>"
  have sent: "fst (tick True prev) = [TimerTick d, TimerSwitchMode]"
    using assms(6,7) by (simp add: tick_def d_def)
  have first: "fst (handle s now sid (TimerTick d)) = s1"
    using assms(1,2,3,5)
    by (simp add: handle_def timer_tick_def findOneAndUpdate_def s1_def room1_def d_def t_def)
  have stored1: "map_of (db s1) r = Some room1"
    by (simp add: s1_def map_of_update_same)
  have sock1: "map_of (sockets s1) sid = Some sk" "dbUp s1"
    using assms(1,5) by (simp_all add: s1_def)
  have host1: "host room1 = userId sk"
    using assms(4) by (simp add: room1_def)
  have second: "map_of (db (fst (handle s1 later sid TimerSwitchMode))) r =
      Some (room1\<lparr>timerState := timer_update Switch later (timerState room1)\<rparr>)"
    using sock1 assms(2) stored1 host1
    by (simp add: handle_def handleTimerAction_def findOneAndUpdate_def map_of_update_same)
  have switched: "room1\<lparr>timerState := timer_update Switch later (timerState room1)\<rparr> =
      room\<lparr>timerState := t\<lparr>isBreak := \<not> isBreak t, isRunning := False,
                             timeRemaining := (if isBreak t then workDuration t else breakDuration t),
                             startedAt := None\<rparr>\<rparr>"
    by (simp add: room1_def timer_update_def t_def)
  show ?thesis
    unfolding Let_def d_def [symmetric] t_def [symmetric]
    using sent first stored1 second switched by (simp add: room1_def)
qed

text \<open>
  The amended C1 on the example server: Ann's client ticks from 1 to 0, and after the
  two events the stored timer of \<^verbatim>\<open>R1\<close> is a stopped break of 300 seconds.
\<close>

theorem tick_to_zero_then_switch_mode_witness:
  "fst (tick True timer0) =
     [TimerTick \<lparr>dataTimeRemaining = 0, dataIsRunning = True, dataIsBreak = False\<rparr>, TimerSwitchMode]
   \<and> map_of (db (fst (handle (fst (handle demo 5 ''c1''
          (TimerTick \<lparr>dataTimeRemaining = 0, dataIsRunning = True, dataIsBreak = False\<rparr>)))
          6 ''c1'' TimerSwitchMode))) ''R1'' =
       Some \<lparr>host = ''u1'', timerState =
               \<lparr>isRunning = False, timeRemaining = 300, isBreak = True, startedAt = None,
                workDuration = 1500, breakDuration = 300\<rparr>\<rparr>"
proof -
  have a: "map_of (sockets demo) ''c1'' = Some ann" by (simp add: demo_def)
  have b: "currentRoom ann = Some ''R1''" by (simp add: ann_def)
  have c: "map_of (db demo) ''R1'' = Some \<lparr>host = ''u1'', timerState = timer0\<rparr>"
    by (simp add: demo_def rooms0_def)
  have d: "host \<lparr>host = ''u1'', timerState = timer0\<rparr> = userId ann" by (simp add: ann_def)
  have e: "dbUp demo" by (simp add: demo_def)
  have f: "isRunning timer0" by (simp add: timer0_def)
  have g: "timeRemaining timer0 = 1" by (simp add: timer0_def)
  show ?thesis
    using tick_to_zero_then_switch_mode [OF a b c d e f g, of 5 6]
    by (simp add: Let_def timer0_def)
qed

section \<open>Ticks are not gated by the host (C2)\<close>

text \<open>
  C2: the code at the failing input. Bob is not the host of \<^verbatim>\<open>R1\<close>; his tick is written
  to the stored timer of \<^verbatim>\<open>R1\<close> (time remaining 7, not running) and broadcast to Ann, and
  Bob receives no error.
\<close>

theorem tick_from_non_host_is_applied:
  "handle demo 5 ''c2'' (TimerTick \<lparr>dataTimeRemaining = 7, dataIsRunning = False, dataIsBreak = True\<rparr>)
     = (demo\<lparr>db := [(''R1'', \<lparr>host = ''u1'', timerState = timer0\<lparr>timeRemaining := 7, isRunning := False\<rparr>\<rparr>),
                      (''R2'', \<lparr>host = ''u2'', timerState = timer0\<rparr>)]\<rparr>,
        [(''c1'', TimerSync (Tick \<lparr>dataTimeRemaining = 7, dataIsRunning = False, dataIsBreak = True\<rparr>))])
   \<and> userId bob \<noteq> host \<lparr>host = ''u1'', timerState = timer0\<rparr>
   \<and> map_of (sockets demo) ''c2'' = Some bob
   \<and> map_of (db demo) ''R1'' = Some \<lparr>host = ''u1'', timerState = timer0\<rparr>"
  by (simp add: handle_def timer_tick_def findOneAndUpdate_def demo_def rooms0_def bob_def ann_def
      eve_def socket_to_def io_to_def emit_def)

section \<open>Timer commands of a participant who is not the host (C3)\<close>

text \<open>
  C3: a socket that has joined room \<open>r\<close> and whose user is not the host of \<open>r\<close> sends
  \<^verbatim>\<open>timer-start\<close>, \<^verbatim>\<open>timer-pause\<close>, \<^verbatim>\<open>timer-reset\<close> or \<^verbatim>\<open>timer-switch-mode\<close>: the
  server is unchanged (so nothing is written to the database), and the only event
  emitted is one \<^verbatim>\<open>error\<close>, to that socket.
\<close>

theorem non_host_timer_command_rejected:
  assumes "map_of (sockets s) sid = Some sk"
    and "currentRoom sk = Some r"
    and "map_of (db s) r = Some room"
    and "host room \<noteq> userId sk"
    and "e \<in> {TimerStart, TimerPause, TimerReset, TimerSwitchMode}"
  shows "handle s now sid e =
           (s, [(sid, Error (if dbUp s then ''Only the host can control the timer''
                             else ''Failed to update timer''))])"
  using assms by (auto simp: handle_def handleTimerAction_def)

text \<open>C3 on the example server: Bob's \<^verbatim>\<open>timer-start\<close>.\<close>

theorem non_host_timer_command_rejected_witness:
  "handle demo 5 ''c2'' TimerStart = (demo, [(''c2'', Error ''Only the host can control the timer'')])"
proof -
  have a: "map_of (sockets demo) ''c2'' = Some bob" by (simp add: demo_def)
  have b: "currentRoom bob = Some ''R1''" by (simp add: bob_def)
  have c: "map_of (db demo) ''R1'' = Some \<lparr>host = ''u1'', timerState = timer0\<rparr>"
    by (simp add: demo_def rooms0_def)
  have d: "host \<lparr>host = ''u1'', timerState = timer0\<rparr> \<noteq> userId bob" by (simp add: bob_def)
  have e: "TimerStart \<in> {TimerStart, TimerPause, TimerReset, TimerSwitchMode}" by simp
  have f: "dbUp demo" by (simp add: demo_def)
  show ?thesis using non_host_timer_command_rejected [OF a b c d e, of 5] f by simp
qed

section \<open>Events before a join (C4)\<close>

text \<open>
  C4, as stated, fails: Eve has joined no room, and her \<^verbatim>\<open>video-offer\<close> naming Bob's
  socket is delivered to Bob.
\<close>

theorem unjoined_video_offer_is_forwarded:
  "map_of (sockets demo) ''c3'' = Some eve \<and> currentRoom eve = None
   \<and> handle demo 5 ''c3'' (VideoOffer ''c2'' ''sdp'') = (demo, [(''c2'', VideoOfferOut ''c3'' ''eve'' ''sdp'')])"
  by (simp add: handle_def demo_def io_to_def emit_def ann_def bob_def eve_def)

text \<open>
  C4, amended: for a connected socket with no current room, \<^verbatim>\<open>leave-room\<close>,
  \<^verbatim>\<open>send-message\<close>, the four timer commands, \<^verbatim>\<open>timer-tick\<close>, \<^verbatim>\<open>video-ready\<close> and
  \<^verbatim>\<open>video-leave\<close> change nothing and deliver nothing. \<^verbatim>\<open>video-offer\<close>, \<^verbatim>\<open>video-answer\<close>
  and \<^verbatim>\<open>video-ice-candidate\<close> change nothing and are delivered to the members of the
  Socket.io room that the payload names, tagged with the sender's socket id. A
  disconnect removes the socket and delivers nothing.
\<close>

theorem before_join_only_forwarding_is_processed:
  assumes "map_of (sockets s) sid = Some sk"
    and "currentRoom sk = None"
  shows "(reads_current_room e \<longrightarrow> handle s now sid e = (s, []))
       \<and> handle s now sid (VideoOffer target p) = (s, emit (io_to s target) (VideoOfferOut sid (username sk) p))
       \<and> handle s now sid (VideoAnswer target p) = (s, emit (io_to s target) (VideoAnswerOut sid p))
       \<and> handle s now sid (VideoIceCandidate target p) = (s, emit (io_to s target) (VideoIceCandidateOut sid p))
       \<and> handle s now sid Disconnect = (s\<lparr>sockets := AList.delete sid (sockets s)\<rparr>, [])"
proof -
  have quiet: "reads_current_room e \<longrightarrow> handle s now sid e = (s, [])"
    using assms
    by (cases e) (simp_all add: handle_def handleLeaveRoom_def send_message_def
        handleTimerAction_def timer_tick_def video_ready_def video_leave_def)
  have gone: "handle s now sid Disconnect = (s\<lparr>sockets := AList.delete sid (sockets s)\<rparr>, [])"
    using assms
    by (simp add: handle_def disconnect_def handleLeaveRoom_def set_socket_def delete_update_same)
  from quiet gone assms show ?thesis by (simp add: handle_def)
qed

text \<open>
  The amended C4 on the example server: Eve's \<^verbatim>\<open>send-message\<close> is ignored, her
  \<^verbatim>\<open>video-answer\<close> reaches Ann.
\<close>

theorem before_join_only_forwarding_is_processed_witness:
  "handle demo 5 ''c3'' (SendMessage (utf16 ''hi'')) = (demo, [])
   \<and> handle demo 5 ''c3'' (VideoAnswer ''c1'' ''sdp'') = (demo, [(''c1'', VideoAnswerOut ''c3'' ''sdp'')])"
proof -
  have a: "map_of (sockets demo) ''c3'' = Some eve" by (simp add: demo_def)
  have b: "currentRoom eve = None" by (simp add: eve_def)
  have c: "io_to demo ''c1'' = [''c1'']"
    by (simp add: io_to_def demo_def ann_def bob_def eve_def)
  show ?thesis
    using before_join_only_forwarding_is_processed [OF a b, of "SendMessage (utf16 ''hi'')" 5 "''c1''" "''sdp''"] c
    by (simp add: emit_def)
qed

section \<open>The bounded chat history (C5)\<close>

text \<open>
  No handler makes the history of a room longer than its bound allows: joining creates
  an empty history, leaving keeps or drops it, sending pushes one message and shifts
  one out when the length exceeds 100, and the other handlers do not touch it.
\<close>

lemma messages_of_join_room:
  "messages_of (fst (join_room s sid sk r)) r' = messages_of s r'"
  by (simp add: join_room_def Let_def set_socket_def messages_of_def update_conv'
      split: option.splits)

lemma messages_of_handleLeaveRoom:
  "length (messages_of (fst (handleLeaveRoom s sid sk)) r') \<le> length (messages_of s r')"
  by (simp add: handleLeaveRoom_def Let_def set_socket_def messages_of_def delete_conv'
      split: option.splits)

lemma messages_of_set_socket: "messages_of (set_socket s sid sk) r = messages_of s r"
  by (simp add: set_socket_def messages_of_def)

lemma messages_of_disconnect:
  "length (messages_of (fst (disconnect s sid sk)) r') \<le> length (messages_of s r')"
proof -
  have "messages_of (fst (disconnect s sid sk)) r' =
        messages_of (fst (handleLeaveRoom (set_socket s sid (sk\<lparr>rooms := []\<rparr>)) sid (sk\<lparr>rooms := []\<rparr>))) r'"
    by (simp add: disconnect_def Let_def case_prod_beta messages_of_def)
  then show ?thesis
    using messages_of_handleLeaveRoom [of "set_socket s sid (sk\<lparr>rooms := []\<rparr>)" sid "sk\<lparr>rooms := []\<rparr>" r']
    by (simp add: messages_of_set_socket)
qed

lemma messages_of_send_message:
  assumes "length (messages_of s r') \<le> 100"
  shows "length (messages_of (fst (send_message s now sid sk content)) r') \<le> 100"
  using assms
  by (auto simp: send_message_def Let_def messages_of_def update_conv' split: option.splits)

lemma messages_of_handleTimerAction:
  "messages_of (fst (handleTimerAction s now sid sk a)) r' = messages_of s r'"
  by (simp add: handleTimerAction_def Let_def messages_of_def split: option.splits)

lemma messages_of_timer_tick:
  "messages_of (fst (timer_tick s sid sk data)) r' = messages_of s r'"
  by (simp add: timer_tick_def messages_of_def split: option.splits)

lemma messages_of_video:
  "messages_of (fst (video_ready s sid sk)) r' = messages_of s r'"
  "messages_of (fst (video_leave s sid sk)) r' = messages_of s r'"
  by (simp_all add: video_ready_def video_leave_def split: option.splits)

lemma bounded_on_event:
  assumes "length (messages_of s r') \<le> 100"
  shows "length (messages_of (fst (on_event s now sid sk e)) r') \<le> 100"
proof (cases e)
  case LeaveRoom
  then show ?thesis
    using assms messages_of_handleLeaveRoom [of s sid sk r'] by simp
next
  case Disconnect
  then show ?thesis
    using assms messages_of_disconnect [of s sid sk r'] by simp
qed (use assms in \<open>simp_all add: messages_of_join_room messages_of_send_message
      messages_of_handleTimerAction messages_of_timer_tick messages_of_video\<close>)

lemma bounded_env_step:
  assumes "length (messages_of s r') \<le> 100"
  shows "length (messages_of (fst (env_step s x)) r') \<le> 100"
proof (cases x)
  case (Connection sid uid uname)
  then show ?thesis
    using assms by (simp add: connection_def messages_of_set_socket)
next
  case (Inbound now sid e)
  then show ?thesis
    using assms by (simp add: handle_def bounded_on_event split: option.splits)
next
  case (DbAvailability b)
  then show ?thesis
    using assms by (simp add: messages_of_def)
qed

lemma bounded_exec:
  "length (messages_of s r') \<le> 100 \<Longrightarrow> length (messages_of (exec s tr) r') \<le> 100"
  by (induction tr arbitrary: s) (simp_all add: bounded_env_step)

lemma send_message_full:
  assumes "map_of (sockets s) sid = Some sk"
    and "currentRoom sk = Some r"
    and "map_of (roomMessages s) r = Some msgs"
    and "length msgs = 100"
    and "content \<noteq> []"
  shows "messages_of (fst (handle s now sid (SendMessage content))) r = tl msgs @ [new_message now sk content]"
proof -
  have "msgs \<noteq> []" using assms(4) by auto
  then have "tl (msgs @ [new_message now sk content]) = tl msgs @ [new_message now sk content]"
    by simp
  then show ?thesis
    using assms
    by (simp add: handle_def send_message_def Let_def messages_of_def map_of_update_same)
qed

text \<open>
  What one \<^verbatim>\<open>send-message\<close> with content does to the history, and what a sequence of
  them from one joined socket does: the history is the last 100 of the messages it
  held followed by the messages sent with content.
\<close>

lemma send_message_step:
  assumes "map_of (sockets s) sid = Some sk"
    and "currentRoom sk = Some r"
    and "map_of (roomMessages s) r = Some msgs"
    and "content \<noteq> []"
  shows "fst (handle s now sid (SendMessage content)) =
           s\<lparr>roomMessages :=
               AList.update r
                 (if 100 < length (msgs @ [new_message now sk content])
                  then tl (msgs @ [new_message now sk content])
                  else msgs @ [new_message now sk content])
                 (roomMessages s)\<rparr>"
  using assms by (simp add: handle_def send_message_def Let_def)

lemma keep_last_hundred:
  assumes "length msgs \<le> 100"
  shows "drop (length ((if 100 < length (msgs @ [m]) then tl (msgs @ [m]) else msgs @ [m]) @ rest) - 100)
              ((if 100 < length (msgs @ [m]) then tl (msgs @ [m]) else msgs @ [m]) @ rest)
         = drop (length (msgs @ m # rest) - 100) (msgs @ m # rest)"
proof (cases "length msgs = 100")
  case True
  then obtain a ms where msgs: "msgs = a # ms" and len: "length ms = 99"
    by (cases msgs) auto
  have "Suc (99 + length rest) - 100 = length rest" by simp
  moreover have "Suc (Suc (99 + length rest)) - 100 = Suc (length rest)" by simp
  ultimately show ?thesis
    using len by (simp add: msgs)
next
  case False
  with assms have "length msgs < 100" by simp
  then show ?thesis by simp
qed

lemma history_after_sends:
  assumes "map_of (sockets s) sid = Some sk"
    and "currentRoom sk = Some r"
    and "map_of (roomMessages s) r = Some msgs"
    and "length msgs \<le> 100"
  shows "map_of (roomMessages (exec s (sends sid xs))) r =
           Some (drop (length (msgs @ map (\<lambda>(now, c). new_message now sk c)
                                      (filter (\<lambda>(now, c). c \<noteq> []) xs)) - 100)
                      (msgs @ map (\<lambda>(now, c). new_message now sk c)
                                (filter (\<lambda>(now, c). c \<noteq> []) xs)))
         \<and> sockets (exec s (sends sid xs)) = sockets s"
  using assms
proof (induction xs arbitrary: s msgs)
  case Nil
  then show ?case by (simp add: sends_def)
next
  case (Cons x xs)
  obtain now c where x: "x = (now, c)" by (cases x)
  show ?case
  proof (cases "c = []")
    case True
    have same: "fst (handle s now sid (SendMessage c)) = s"
      using Cons.prems(1,2) True by (simp add: handle_def send_message_def)
    have unfold: "exec s (sends sid (x # xs)) = exec s (sends sid xs)"
      using same by (simp add: sends_def x)
    show ?thesis
      unfolding unfold using Cons.IH [OF Cons.prems] True by (simp add: x)
  next
    case False
    define m where "m = new_message now sk c"
    define kept where "kept = (if 100 < length (msgs @ [m]) then tl (msgs @ [m]) else msgs @ [m])"
    define s' where "s' = s\<lparr>roomMessages := AList.update r kept (roomMessages s)\<rparr>"
    have step: "fst (handle s now sid (SendMessage c)) = s'"
      using send_message_step [OF Cons.prems(1,2,3) False, of now]
      by (simp add: s'_def kept_def m_def)
    have unfold: "exec s (sends sid (x # xs)) = exec s' (sends sid xs)"
      using step by (simp add: sends_def x)
    have sock: "map_of (sockets s') sid = Some sk" "sockets s' = sockets s"
      using Cons.prems(1) by (simp_all add: s'_def)
    have hist: "map_of (roomMessages s') r = Some kept"
      by (simp add: s'_def map_of_update_same)
    have len: "length kept \<le> 100"
      using Cons.prems(4) by (auto simp: kept_def)
    let ?rest = "map (\<lambda>(now, c). new_message now sk c) (filter (\<lambda>(now, c). c \<noteq> []) xs)"
    have shift: "drop (length (kept @ ?rest) - 100) (kept @ ?rest)
                 = drop (length (msgs @ m # ?rest) - 100) (msgs @ m # ?rest)"
      unfolding kept_def by (rule keep_last_hundred [OF Cons.prems(4)])
    have all: "msgs @ map (\<lambda>(now, c). new_message now sk c) (filter (\<lambda>(now, c). c \<noteq> []) (x # xs))
               = msgs @ m # ?rest"
      using False by (simp add: x m_def)
    show ?thesis
      unfolding unfold all
      using Cons.IH [OF sock(1) Cons.prems(2) hist len] shift sock(2) by simp
  qed
qed


lemma send_message_below:
  assumes "map_of (sockets s) sid = Some sk"
    and "currentRoom sk = Some r"
    and "map_of (roomMessages s) r = Some msgs"
    and "length msgs < 100"
    and "content \<noteq> []"
  shows "messages_of (fst (handle s now sid (SendMessage content))) r = msgs @ [new_message now sk content]"
  using assms
  by (simp add: handle_def send_message_def Let_def messages_of_def map_of_update_same)

lemma first_absent_after_shift:
  assumes "msgs \<noteq> []" and "distinct (msgs @ [m])"
  shows "hd msgs \<notin> set (tl msgs @ [m])"
  using assms by (cases msgs) auto

text \<open>After Bob's hundred messages the sockets are as before and the history is full.\<close>

lemma hundred_sockets: "sockets hundred = sockets demo"
proof -
  have "map_of (sockets demo) ''c2'' = Some bob" by (simp add: demo_def)
  moreover have "currentRoom bob = Some ''R1''" by (simp add: bob_def)
  moreover have "map_of (roomMessages demo) ''R1'' = Some []" by (simp add: demo_def)
  ultimately show ?thesis
    using history_after_sends [of demo "''c2''" bob "''R1''" "[]"]
    by (simp add: hundred_def exec_append demo_reachable del: upt_rec_numeral)
qed

lemma hundred_history:
  "map_of (roomMessages hundred) ''R1'' = Some (map (\<lambda>n. new_message n bob (utf16 ''old'')) [3..<103])"
proof -
  have "map_of (sockets demo) ''c2'' = Some bob" by (simp add: demo_def)
  moreover have "currentRoom bob = Some ''R1''" by (simp add: bob_def)
  moreover have "map_of (roomMessages demo) ''R1'' = Some []" by (simp add: demo_def)
  ultimately have "map_of (roomMessages (exec demo (sends ''c2'' (map (\<lambda>n. (n, utf16 ''old'')) [3..<103])))) ''R1''
      = Some (drop (length (map (\<lambda>(now, c). new_message now bob c)
                      (filter (\<lambda>(now, c). c \<noteq> []) (map (\<lambda>n. (n, utf16 ''old'')) [3..<103]))) - 100)
                (map (\<lambda>(now, c). new_message now bob c)
                      (filter (\<lambda>(now, c). c \<noteq> []) (map (\<lambda>n. (n, utf16 ''old'')) [3..<103]))))"
    using history_after_sends [of demo "''c2''" bob "''R1''" "[]" "map (\<lambda>n. (n, utf16 ''old'')) [3..<103]"]
    by (simp del: upt_rec_numeral)
  moreover have "filter (\<lambda>(now, c). c \<noteq> []) (map (\<lambda>n. (n, utf16 ''old'')) [3..<103])
                 = map (\<lambda>n. (n, utf16 ''old'')) [3..<103]"
    by (simp add: filter_map o_def utf16_def del: upt_rec_numeral)
  ultimately show ?thesis
    by (simp add: hundred_def exec_append demo_reachable o_def del: upt_rec_numeral)
qed

text \<open>
  C5: in every run of the server from its start, the history of every room holds at
  most 100 messages. A joined socket that sends messages to a room whose history
  holds at most 100 leaves as history the last 100 of the old messages followed by
  the sent ones with content, in the order of appending. One message sent to a history
  of fewer than 100 is appended and nothing is evicted. One message sent to a history
  of 100 gives the old history without its first message, in the same order, followed
  by the new message: 100 messages again, and the first message is not among them
  when the 101 messages are pairwise different.
\<close>

theorem chat_history_bounded_fifo:
  "length (messages_of (exec (initial d) tr) r') \<le> 100
   \<and> (map_of (sockets s) sid = Some sk \<and> currentRoom sk = Some r
        \<and> map_of (roomMessages s) r = Some msgs \<and> length msgs \<le> 100
      \<longrightarrow> map_of (roomMessages (exec s (sends sid xs))) r =
            Some (drop (length (msgs @ map (\<lambda>(now, c). new_message now sk c)
                                       (filter (\<lambda>(now, c). c \<noteq> []) xs)) - 100)
                       (msgs @ map (\<lambda>(now, c). new_message now sk c)
                                 (filter (\<lambda>(now, c). c \<noteq> []) xs))))
   \<and> (map_of (sockets s) sid = Some sk \<and> currentRoom sk = Some r
        \<and> map_of (roomMessages s) r = Some msgs \<and> length msgs < 100 \<and> content \<noteq> []
      \<longrightarrow> messages_of (fst (handle s now sid (SendMessage content))) r
            = msgs @ [new_message now sk content])
   \<and> (map_of (sockets s) sid = Some sk \<and> currentRoom sk = Some r
        \<and> map_of (roomMessages s) r = Some msgs \<and> length msgs = 100 \<and> content \<noteq> []
      \<longrightarrow> messages_of (fst (handle s now sid (SendMessage content))) r
            = tl msgs @ [new_message now sk content]
          \<and> length (messages_of (fst (handle s now sid (SendMessage content))) r) = 100
          \<and> (distinct (msgs @ [new_message now sk content])
               \<longrightarrow> hd msgs \<notin> set (messages_of (fst (handle s now sid (SendMessage content))) r)))"
proof -
  have "length (messages_of (initial d) r') \<le> 100"
    by (simp add: initial_def messages_of_def)
  then have bound: "length (messages_of (exec (initial d) tr) r') \<le> 100"
    by (rule bounded_exec)
  have absent: "hd msgs \<notin> set (tl msgs @ [new_message now sk content])"
    if "length msgs = 100" and "distinct (msgs @ [new_message now sk content])"
  proof (rule first_absent_after_shift)
    show "msgs \<noteq> []" using that(1) by auto
    show "distinct (msgs @ [new_message now sk content])" by (rule that(2))
  qed
  from bound absent show ?thesis
    by (simp add: send_message_full send_message_below history_after_sends)
qed

text \<open>
  C5 on the example. Ann sends 101 messages after the joins, at the clock readings
  10 to 110: the history is the 2nd to the 101st, in order. Her message to the empty
  history is kept. Her message to the history filled by Bob evicts Bob's first message
  and keeps his 2nd to 100th before her own.
\<close>

theorem chat_history_bounded_fifo_witness:
  "length (messages_of (exec (initial rooms0)
       (joins @ sends ''c1'' (map (\<lambda>n. (n, utf16 ''m'')) [10..<111]))) ''R1'') \<le> 100
   \<and> map_of (roomMessages (exec (initial rooms0)
       (joins @ sends ''c1'' (map (\<lambda>n. (n, utf16 ''m'')) [10..<111])))) ''R1''
       = Some (map (\<lambda>n. new_message n ann (utf16 ''m'')) [11..<111])
   \<and> messages_of (fst (handle demo 5 ''c1'' (SendMessage (utf16 ''hi'')))) ''R1''
       = [new_message 5 ann (utf16 ''hi'')]
   \<and> messages_of (fst (handle hundred 200 ''c1'' (SendMessage (utf16 ''hi'')))) ''R1''
       = map (\<lambda>n. new_message n bob (utf16 ''old'')) [4..<103] @ [new_message 200 ann (utf16 ''hi'')]
   \<and> length (messages_of (fst (handle hundred 200 ''c1'' (SendMessage (utf16 ''hi'')))) ''R1'') = 100
   \<and> new_message 3 bob (utf16 ''old'')
       \<notin> set (messages_of (fst (handle hundred 200 ''c1'' (SendMessage (utf16 ''hi'')))) ''R1'')"
proof -
  let ?old = "map (\<lambda>n. new_message n bob (utf16 ''old'')) [3..<103]"
  let ?xs = "map (\<lambda>n. (n, utf16 ''m'')) [10..<111]"
  have a: "map_of (sockets demo) ''c1'' = Some ann" by (simp add: demo_def)
  have b: "currentRoom ann = Some ''R1''" by (simp add: ann_def)
  have c: "map_of (roomMessages demo) ''R1'' = Some []" by (simp add: demo_def)
  have d: "utf16 ''hi'' \<noteq> []" by (simp add: utf16_def)
  have z: "length ([] :: Message list) \<le> 100" by simp
  have a': "map_of (sockets hundred) ''c1'' = Some ann" by (simp add: hundred_sockets demo_def)
  have c': "map_of (roomMessages hundred) ''R1'' = Some ?old" by (rule hundred_history)
  have e: "length ?old = 100" by (simp del: upt_rec_numeral)
  have "inj_on (\<lambda>n. new_message n bob (utf16 ''old'')) (set [3..<103])"
    by (simp add: inj_on_def new_message_def del: upt_rec_numeral)
  moreover have "new_message 200 ann (utf16 ''hi'') \<notin> set ?old"
    by (auto simp: new_message_def ann_def bob_def simp del: upt_rec_numeral)
  ultimately have f: "distinct (?old @ [new_message 200 ann (utf16 ''hi'')])"
    by (simp add: distinct_map del: upt_rec_numeral)
  note first = chat_history_bounded_fifo [where d = rooms0 and r' = "''R1''"
      and tr = "joins @ sends ''c1'' ?xs" and s = demo and sid = "''c1''" and sk = ann
      and r = "''R1''" and msgs = "[]" and xs = ?xs and content = "utf16 ''hi''" and now = 5]
  note second = chat_history_bounded_fifo [where d = rooms0 and r' = "''R1''"
      and tr = "[]" and s = hundred and sid = "''c1''" and sk = ann
      and r = "''R1''" and msgs = ?old and xs = "[]" and content = "utf16 ''hi''" and now = 200]
  have run: "length (messages_of (exec (initial rooms0) (joins @ sends ''c1'' ?xs)) ''R1'') \<le> 100"
    using first by blast
  have "filter (\<lambda>(now, c). c \<noteq> []) ?xs = ?xs"
    by (simp add: filter_map o_def utf16_def del: upt_rec_numeral)
  moreover have "map_of (roomMessages (exec demo (sends ''c1'' ?xs))) ''R1'' =
      Some (drop (length ([] @ map (\<lambda>(now, c). new_message now ann c)
                                  (filter (\<lambda>(now, c). c \<noteq> []) ?xs)) - 100)
                 ([] @ map (\<lambda>(now, c). new_message now ann c)
                         (filter (\<lambda>(now, c). c \<noteq> []) ?xs)))"
    using first a b c z by blast
  ultimately have many: "map_of (roomMessages (exec (initial rooms0) (joins @ sends ''c1'' ?xs))) ''R1''
      = Some (map (\<lambda>n. new_message n ann (utf16 ''m'')) [11..<111])"
    by (simp add: exec_append demo_reachable o_def drop_map del: upt_rec_numeral)
  have below: "messages_of (fst (handle demo 5 ''c1'' (SendMessage (utf16 ''hi'')))) ''R1''
      = [new_message 5 ann (utf16 ''hi'')]"
    using first a b c d by (simp del: upt_rec_numeral)
  have range: "[3..<103] = 3 # [4..<103]"
    by (simp add: upt_conv_Cons)
  have ends: "hd ?old = new_message 3 bob (utf16 ''old'')"
    "tl ?old = map (\<lambda>n. new_message n bob (utf16 ''old'')) [4..<103]"
    unfolding range by simp_all
  have "messages_of (fst (handle hundred 200 ''c1'' (SendMessage (utf16 ''hi'')))) ''R1''
        = tl ?old @ [new_message 200 ann (utf16 ''hi'')]
      \<and> length (messages_of (fst (handle hundred 200 ''c1'' (SendMessage (utf16 ''hi'')))) ''R1'') = 100
      \<and> hd ?old \<notin> set (messages_of (fst (handle hundred 200 ''c1'' (SendMessage (utf16 ''hi'')))) ''R1'')"
    using second a' b c' e d f by blast
  then have full: "messages_of (fst (handle hundred 200 ''c1'' (SendMessage (utf16 ''hi'')))) ''R1''
        = map (\<lambda>n. new_message n bob (utf16 ''old'')) [4..<103] @ [new_message 200 ann (utf16 ''hi'')]
      \<and> length (messages_of (fst (handle hundred 200 ''c1'' (SendMessage (utf16 ''hi'')))) ''R1'') = 100
      \<and> new_message 3 bob (utf16 ''old'')
          \<notin> set (messages_of (fst (handle hundred 200 ''c1'' (SendMessage (utf16 ''hi'')))) ''R1'')"
    unfolding ends .
  from run many below full show ?thesis by blast
qed

section \<open>Reset by the host (C6)\<close>

text \<open>
  C6: the host of room \<open>r\<close>, joined to \<open>r\<close>, sends \<^verbatim>\<open>timer-reset\<close> while the database
  answers. Whatever the stored timer was, the new stored timer, which is also the one
  broadcast to the room, has \<^verbatim>\<open>timeRemaining\<close> equal to the duration of the current
  phase (the break duration if \<^verbatim>\<open>isBreak\<close>, the work duration otherwise), is not
  running and has \<^verbatim>\<open>startedAt\<close> null; \<^verbatim>\<open>isBreak\<close> and both durations are as before.
\<close>

theorem host_reset_restores_phase_duration:
  assumes "map_of (sockets s) sid = Some sk"
    and "currentRoom sk = Some r"
    and "map_of (db s) r = Some room"
    and "host room = userId sk"
    and "dbUp s"
  shows "\<exists>s' t'. handle s now sid TimerReset = (s', emit (io_to s r) (TimerSync (Full t')))
           \<and> map_of (db s') r = Some (room\<lparr>timerState := t'\<rparr>)
           \<and> timeRemaining t' = (if isBreak (timerState room) then breakDuration (timerState room)
                                  else workDuration (timerState room))
           \<and> isRunning t' = False
           \<and> startedAt t' = None
           \<and> isBreak t' = isBreak (timerState room)
           \<and> workDuration t' = workDuration (timerState room)
           \<and> breakDuration t' = breakDuration (timerState room)"
proof -
  define t' where "t' = timer_update Reset now (timerState room)"
  define s' where "s' = s\<lparr>db := AList.update r (room\<lparr>timerState := t'\<rparr>) (db s)\<rparr>"
  have run: "handle s now sid TimerReset = (s', emit (io_to s r) (TimerSync (Full t')))"
    using assms
    by (simp add: handle_def handleTimerAction_def findOneAndUpdate_def s'_def t'_def)
  have stored: "map_of (db s') r = Some (room\<lparr>timerState := t'\<rparr>)"
    by (simp add: s'_def map_of_update_same)
  have fields: "timeRemaining t' = (if isBreak (timerState room) then breakDuration (timerState room)
                                    else workDuration (timerState room))"
    "isRunning t' = False" "startedAt t' = None" "isBreak t' = isBreak (timerState room)"
    "workDuration t' = workDuration (timerState room)"
    "breakDuration t' = breakDuration (timerState room)"
    by (simp_all add: t'_def timer_update_def)
  from run stored fields show ?thesis by blast
qed

text \<open>C6 on the example server: Ann resets the work phase to 1500 seconds.\<close>

theorem host_reset_restores_phase_duration_witness:
  "\<exists>s' t'. handle demo 5 ''c1'' TimerReset = (s', emit (io_to demo ''R1'') (TimerSync (Full t')))
     \<and> map_of (db s') ''R1'' = Some \<lparr>host = ''u1'', timerState = t'\<rparr>
     \<and> timeRemaining t' = 1500 \<and> isRunning t' = False \<and> startedAt t' = None
     \<and> isBreak t' = False \<and> workDuration t' = 1500 \<and> breakDuration t' = 300"
proof -
  have a: "map_of (sockets demo) ''c1'' = Some ann" by (simp add: demo_def)
  have b: "currentRoom ann = Some ''R1''" by (simp add: ann_def)
  have c: "map_of (db demo) ''R1'' = Some \<lparr>host = ''u1'', timerState = timer0\<rparr>"
    by (simp add: demo_def rooms0_def)
  have d: "host \<lparr>host = ''u1'', timerState = timer0\<rparr> = userId ann" by (simp add: ann_def)
  have e: "dbUp demo" by (simp add: demo_def)
  show ?thesis
    using host_reset_restores_phase_duration [OF a b c d e, of 5] by (simp add: timer0_def)
qed

section \<open>Content of a chat message (C7)\<close>

text \<open>
  C7, as stated, fails: Ann's message of two spaces is stored and broadcast with empty
  content, and her message of 501 letters is stored with all its 501 letters.
\<close>

theorem blank_and_long_messages_are_stored:
  "handle demo 5 ''c1'' (SendMessage (utf16 ''  ''))
     = (demo\<lparr>roomMessages := [(''R1'', [\<lparr>msg_id = toString 5, msg_userId = ''u1'', msg_username = ''ann'',
                                         msg_content = [], msg_timestamp = 5\<rparr>])]\<rparr>,
        [(''c1'', ReceiveMessage \<lparr>msg_id = toString 5, msg_userId = ''u1'', msg_username = ''ann'',
                                msg_content = [], msg_timestamp = 5\<rparr>),
         (''c2'', ReceiveMessage \<lparr>msg_id = toString 5, msg_userId = ''u1'', msg_username = ''ann'',
                                msg_content = [], msg_timestamp = 5\<rparr>)])
   \<and> map (\<lambda>m. length (msg_content m))
         (messages_of (fst (handle demo 5 ''c1'' (SendMessage (utf16 (replicate 501 (CHR ''a'')))))) ''R1'')
       = [501]"
proof -
  have blank: "trim (utf16 ''  '') = []" "utf16 ''  '' \<noteq> []"
    by (simp_all add: trim_def is_space_def utf16_def)
  have letters: "utf16 (replicate 501 (CHR ''a'')) = replicate 501 97"
    by (simp add: utf16_def)
  have "trim (replicate 501 97) = replicate 501 97"
    by (rule trim_no_space) (simp_all add: is_space_def)
  then have long: "length (trim (replicate 501 97)) = 501"
    by simp
  have nonempty: "replicate 501 (97::nat) \<noteq> []"
    by simp
  have members: "io_to (demo\<lparr>roomMessages := ms\<rparr>) ''R1'' = [''c1'', ''c2'']" for ms
    by (simp add: io_to_def demo_def ann_def bob_def eve_def)
  show ?thesis
    unfolding letters
    using blank long nonempty members
    by (simp add: handle_def send_message_def new_message_def Let_def messages_of_def emit_def
        demo_def ann_def)
qed

text \<open>
  C7, amended: a joined socket sends a message to a room that has a history. Empty
  content is dropped: nothing changes, nothing is emitted, no error. Content whose
  trimmed form is not empty is stored as its trimmed form, whatever its length,
  at the end of the history (the first message is shifted out when the length exceeds
  100), and broadcast to every socket of the room; the server enforces no bound on
  the length.
\<close>

theorem empty_dropped_trimmed_stored:
  assumes "map_of (sockets s) sid = Some sk"
    and "currentRoom sk = Some r"
    and "map_of (roomMessages s) r = Some msgs"
  shows "(content = [] \<longrightarrow> handle s now sid (SendMessage content) = (s, []))
       \<and> (trim content \<noteq> [] \<longrightarrow>
            handle s now sid (SendMessage content)
              = (s\<lparr>roomMessages :=
                     AList.update r
                       (if length msgs < 100 then msgs @ [new_message now sk content]
                        else tl (msgs @ [new_message now sk content]))
                       (roomMessages s)\<rparr>,
                 emit (io_to s r) (ReceiveMessage (new_message now sk content)))
            \<and> msg_content (new_message now sk content) = trim content)"
proof -
  have "trim [] = []" by (simp add: trim_def)
  then have "trim content \<noteq> [] \<longrightarrow> content \<noteq> []" by auto
  then show ?thesis
    using assms
    by (auto simp: handle_def send_message_def Let_def io_to_def new_message_def)
qed

text \<open>The amended C7 on the example server: an empty message and \<^verbatim>\<open>" hi "\<close> from Ann.\<close>

theorem empty_dropped_trimmed_stored_witness:
  "handle demo 5 ''c1'' (SendMessage []) = (demo, [])
   \<and> handle demo 6 ''c1'' (SendMessage (utf16 '' hi ''))
       = (demo\<lparr>roomMessages := [(''R1'', [new_message 6 ann (utf16 '' hi '')])]\<rparr>,
          [(''c1'', ReceiveMessage (new_message 6 ann (utf16 '' hi ''))),
           (''c2'', ReceiveMessage (new_message 6 ann (utf16 '' hi '')))])
   \<and> msg_content (new_message 6 ann (utf16 '' hi '')) = utf16 ''hi''"
proof -
  have a: "map_of (sockets demo) ''c1'' = Some ann" by (simp add: demo_def)
  have b: "currentRoom ann = Some ''R1''" by (simp add: ann_def)
  have c: "map_of (roomMessages demo) ''R1'' = Some []" by (simp add: demo_def)
  have d: "trim (utf16 '' hi '') = utf16 ''hi''" "utf16 ''hi'' \<noteq> []"
    by (simp_all add: trim_def is_space_def utf16_def)
  have e: "io_to demo ''R1'' = [''c1'', ''c2'']"
    by (simp add: io_to_def demo_def ann_def bob_def eve_def)
  have f: "AList.update ''R1'' ms (roomMessages demo) = [(''R1'', ms)]" for ms
    by (simp add: demo_def)
  show ?thesis
    using empty_dropped_trimmed_stored [OF a b c, of "[]" 5]
      empty_dropped_trimmed_stored [OF a b c, of "utf16 '' hi ''" 6] d e f
    by (simp add: emit_def)
qed

section \<open>Presence after a change of room (C8)\<close>

text \<open>
  C8: the code at the failing input. Ann's socket joins \<^verbatim>\<open>R1\<close>, then joins \<^verbatim>\<open>R2\<close>, then
  disconnects. No socket is connected any more, and \<^verbatim>\<open>roomUsers\<close> still lists the
  socket in \<^verbatim>\<open>R1\<close>: the count of \<^verbatim>\<open>R1\<close> is 1 where the claim gives 0.
\<close>

theorem switched_room_keeps_stale_presence:
  "exec (initial rooms0)
     [Connection ''c1'' ''u1'' ''ann'', Inbound 1 ''c1'' (JoinRoom ''R1''),
      Inbound 2 ''c1'' (JoinRoom ''R2''), Inbound 3 ''c1'' Disconnect]
   = \<lparr>db = rooms0, dbUp = True, roomMessages = [(''R1'', [])],
      roomUsers = [(''R1'', [(''c1'', \<lparr>ru_id = ''u1'', ru_username = ''ann'', ru_socketId = ''c1''\<rparr>)])],
      sockets = []\<rparr>"
  by code_simp

section \<open>Message ids (C9)\<close>

text \<open>
  C9: the code at the failing input. Ann and Bob each send a message, and the server
  handles both at the clock reading 7: the two messages of the history have the same
  id.
\<close>

theorem same_clock_reading_same_id:
  "map msg_id (messages_of (exec demo [Inbound 7 ''c1'' (SendMessage (utf16 ''a'')),
                                       Inbound 7 ''c2'' (SendMessage (utf16 ''b''))]) ''R1'')
     = [''7'', ''7'']
   \<and> map msg_content (messages_of (exec demo [Inbound 7 ''c1'' (SendMessage (utf16 ''a'')),
                                       Inbound 7 ''c2'' (SendMessage (utf16 ''b''))]) ''R1'')
     = [utf16 ''a'', utf16 ''b'']"
  by (simp add: handle_def send_message_def new_message_def Let_def messages_of_def
      demo_def ann_def bob_def trim_def is_space_def toString.simps digit_def utf16_def)

section \<open>What a tick writes (C10)\<close>

text \<open>
  C10: a joined socket sends \<^verbatim>\<open>timer-tick\<close> while the database answers and holds the
  room. The stored timer of the room gets the payload's \<^verbatim>\<open>timeRemaining\<close> and
  \<^verbatim>\<open>isRunning\<close> and keeps every other field (\<^verbatim>\<open>isBreak\<close>, \<^verbatim>\<open>startedAt\<close>, both
  durations); the payload, \<^verbatim>\<open>isBreak\<close> included, goes to the other sockets of the room;
  the other rooms' documents and the rest of the server are unchanged.
\<close>

theorem tick_mirrors_time_and_running_only:
  assumes "map_of (sockets s) sid = Some sk"
    and "currentRoom sk = Some r"
    and "map_of (db s) r = Some room"
    and "dbUp s"
  shows "\<exists>s'. handle s now sid (TimerTick data) = (s', emit (socket_to s sid r) (TimerSync (Tick data)))
           \<and> map_of (db s') r =
               Some (room\<lparr>timerState := (timerState room)\<lparr>timeRemaining := dataTimeRemaining data,
                                                          isRunning := dataIsRunning data\<rparr>\<rparr>)
           \<and> (\<forall>r'. r' \<noteq> r \<longrightarrow> map_of (db s') r' = map_of (db s) r')
           \<and> roomMessages s' = roomMessages s \<and> roomUsers s' = roomUsers s
           \<and> sockets s' = sockets s \<and> dbUp s' = dbUp s"
proof -
  define room' where "room' = room\<lparr>timerState :=
    (timerState room)\<lparr>timeRemaining := dataTimeRemaining data, isRunning := dataIsRunning data\<rparr>\<rparr>"
  define s' where "s' = s\<lparr>db := AList.update r room' (db s)\<rparr>"
  have run: "handle s now sid (TimerTick data) = (s', emit (socket_to s sid r) (TimerSync (Tick data)))"
    using assms by (simp add: handle_def timer_tick_def findOneAndUpdate_def s'_def room'_def)
  have stored: "map_of (db s') r = Some room'"
    by (simp add: s'_def map_of_update_same)
  have others: "\<forall>r'. r' \<noteq> r \<longrightarrow> map_of (db s') r' = map_of (db s) r'"
    by (simp add: s'_def map_of_update_other)
  have frame: "roomMessages s' = roomMessages s" "roomUsers s' = roomUsers s"
    "sockets s' = sockets s" "dbUp s' = dbUp s"
    by (simp_all add: s'_def)
  from run stored others frame show ?thesis unfolding room'_def by blast
qed

text \<open>
  C10 on the example server: Ann's tick carries \<^verbatim>\<open>isBreak\<close> true; Bob receives it, and
  the stored timer of \<^verbatim>\<open>R1\<close> keeps \<^verbatim>\<open>isBreak\<close> false.
\<close>

theorem tick_mirrors_time_and_running_only_witness:
  "\<exists>s'. handle demo 5 ''c1'' (TimerTick \<lparr>dataTimeRemaining = 0, dataIsRunning = True, dataIsBreak = True\<rparr>)
          = (s', [(''c2'', TimerSync (Tick \<lparr>dataTimeRemaining = 0, dataIsRunning = True, dataIsBreak = True\<rparr>))])
     \<and> map_of (db s') ''R1'' =
         Some \<lparr>host = ''u1'', timerState = \<lparr>isRunning = True, timeRemaining = 0, isBreak = False,
               startedAt = Some 0, workDuration = 1500, breakDuration = 300\<rparr>\<rparr>
     \<and> map_of (db s') ''R2'' = map_of (db demo) ''R2''"
proof -
  have a: "map_of (sockets demo) ''c1'' = Some ann" by (simp add: demo_def)
  have b: "currentRoom ann = Some ''R1''" by (simp add: ann_def)
  have c: "map_of (db demo) ''R1'' = Some \<lparr>host = ''u1'', timerState = timer0\<rparr>"
    by (simp add: demo_def rooms0_def)
  have e: "dbUp demo" by (simp add: demo_def)
  have f: "socket_to demo ''c1'' ''R1'' = [''c2'']"
    by (simp add: socket_to_def io_to_def demo_def ann_def bob_def eve_def)
  show ?thesis
    using tick_mirrors_time_and_running_only [OF a b c e, of 5
        "\<lparr>dataTimeRemaining = 0, dataIsRunning = True, dataIsBreak = True\<rparr>"] f
    by (auto simp: timer0_def emit_def)
qed

end
